theory Spec2Isabelle
  imports Main "HOL-Library.Char_ord" "HOL-Library.List_Lexorder" "HOL-Library.Product_Lexorder"
begin

section \<open>Controller exception boundary (iot/common/exception.py)\<close>

text \<open>
  An exception that escapes a controller method is either an instance of \<open>IoTException\<close>
  (it carries the class attribute \<open>code\<close> and its formatted \<open>message\<close>) or some other
  \<open>Exception\<close>, of which only its text is known.
\<close>

datatype excp = IoTException (code: int) (message: string) | OtherException string

text \<open>\<open>six.text_type(excp)\<close>: \<open>IoTException.__unicode__\<close> returns \<open>self.message\<close>.\<close>

definition text_type :: "excp \<Rightarrow> string" where
  "text_type e = (case e of IoTException c m \<Rightarrow> m | OtherException s \<Rightarrow> s)"

text \<open>\<open>wsme.exc.ClientSideError(msg, status_code)\<close>, the error the client sees.\<close>

datatype client_side_error = ClientSideError (msg: string) (status_code: int)

text \<open>\<open>OBFUSCATED_MSG % log_correlation_id\<close>.\<close>

definition OBFUSCATED_MSG :: "string \<Rightarrow> string" where
  "OBFUSCATED_MSG log_correlation_id =
     ''Your request could not be handled because of a problem in the server. '' @
     ''Error Correlation id is: '' @ log_correlation_id"

text \<open>
  \<open>wrap_controller_exception\<close>. The first argument is the outcome of \<open>func(*args, **kw)\<close>:
  \<open>Inr\<close> its return value, \<open>Inl\<close> the exception it raised. \<open>uuid4\<close> is the string
  \<open>str(uuid.uuid4())\<close> would give; it is only used on the server-error branch. The result
  is \<open>Inl\<close> what the error callback did, or \<open>Inr\<close> the value returned.
\<close>

definition wrap_controller_exception ::
  "excp + 'a \<Rightarrow> (string \<Rightarrow> int \<Rightarrow> 'r) \<Rightarrow> (excp \<Rightarrow> int \<Rightarrow> 'r) \<Rightarrow> string \<Rightarrow> 'r + 'a" where
  "wrap_controller_exception func func_server_error func_client_error uuid4 =
     (case func of
        Inr v \<Rightarrow> Inr v
      | Inl excp \<Rightarrow>
          (let http_error_code = (case excp of IoTException c m \<Rightarrow> c | OtherException s \<Rightarrow> 500)
           in if http_error_code \<ge> 500
              then Inl (func_server_error uuid4 http_error_code)
              else Inl (func_client_error excp http_error_code)))"

definition wrap_wsme_controller_exception :: "excp + 'a \<Rightarrow> string \<Rightarrow> client_side_error + 'a" where
  "wrap_wsme_controller_exception func uuid4 =
     wrap_controller_exception func
       (\<lambda>log_correlation_id status_code.
          ClientSideError (OBFUSCATED_MSG log_correlation_id) status_code)
       (\<lambda>excp status_code. ClientSideError (text_type excp) status_code)
       uuid4"

text \<open>The status the wrapper works with: the exception's own code, or 500.\<close>

definition http_error_code_of :: "excp \<Rightarrow> int" where
  "http_error_code_of e = (case e of IoTException c m \<Rightarrow> c | OtherException s \<Rightarrow> 500)"

section \<open>Python values and exceptions\<close>

text \<open>
  The values that reach the storage layer: \<open>None\<close>, integers and text. A column of the
  device table holds one of them (\<open>PNone\<close> is SQL \<open>NULL\<close>).
\<close>

datatype pyval = PNone | PInt int | PStr string

text \<open>
  The exceptions of the storage, object and query code. The first four are classes of
  iot/common/exception.py, the next six are raised by oslo.db and SQLAlchemy, the rest are
  Python's own.
\<close>

datatype pyexc =
    InvalidIdentity pyval
  | InvalidParameterValue string
  | DeviceNotFound pyval
  | DeviceAlreadyExists pyval
  | DBDuplicateEntry
  | DBError
  | NoResultFound
  | MultipleResultsFound
  | InvalidRequestError string
  | InvalidSortKey
  | ValueError
  | TypeError
  | SyntaxError
  | KeyError string
  | AttributeError string
  | NameError string
  | NotImplementedError string
  | OtherError string

section \<open>Query filter (iot/api/controllers/v1/base.py)\<close>

text \<open>
  The attributes of a \<open>Query\<close>: \<open>field\<close>, \<open>_op\<close>, \<open>value\<close> and \<open>type\<close>. An attribute
  that was never set (wsme's \<open>Unset\<close>) or is \<open>None\<close> is \<open>None\<close> here.
\<close>

record Query =
  q_field :: string
  q_op :: "string option"
  q_value :: string
  q_type :: "string option"

text \<open>\<open>get_op\<close>: \<open>self._op or 'eq'\<close>.\<close>

definition get_op :: "Query \<Rightarrow> string" where
  "get_op q = (case q_op q of None \<Rightarrow> ''eq'' | Some v \<Rightarrow> if v = [] then ''eq'' else v)"

text \<open>
  The converters are functions of Python and of oslo.utils (\<open>int\<close>, \<open>float\<close>,
  \<open>strutils.bool_from_string(strict=True)\<close>, \<open>six.text_type\<close>, \<open>timeutils.parse_isotime\<close>)
  and \<open>ast.literal_eval\<close>; they are parameters of the model. Each returns the converted
  object or raises.
\<close>

record 'a converters =
  conv_int :: "string \<Rightarrow> pyexc + 'a"
  conv_float :: "string \<Rightarrow> pyexc + 'a"
  bool_from_string :: "string \<Rightarrow> pyexc + 'a"
  conv_text_type :: "string \<Rightarrow> pyexc + 'a"
  parse_isotime :: "string \<Rightarrow> pyexc + 'a"
  literal_eval :: "string \<Rightarrow> pyexc + 'a"

text \<open>\<open>Query._supported_types\<close> and \<open>Query._type_converters\<close>.\<close>

definition supported_types :: "string list" where
  "supported_types = [''integer'', ''float'', ''string'', ''boolean'']"

definition type_converters :: "'a converters \<Rightarrow> string \<rightharpoonup> (string \<Rightarrow> pyexc + 'a)" where
  "type_converters cv =
     [''integer'' \<mapsto> conv_int cv,
      ''float'' \<mapsto> conv_float cv,
      ''boolean'' \<mapsto> bool_from_string cv,
      ''string'' \<mapsto> conv_text_type cv,
      ''datetime'' \<mapsto> parse_isotime cv]"

text \<open>
  The result of a coercion: the query's own text (\<open>converted_value = self.value\<close>), or the
  object a converter or \<open>literal_eval\<close> returned.
\<close>

datatype 'a converted = Unconverted string | Converted 'a

text \<open>\<open>forced_type or self.type\<close>: \<open>None\<close> and the empty text are false.\<close>

definition truthy_text :: "string option \<Rightarrow> bool" where
  "truthy_text t = (case t of None \<Rightarrow> False | Some s \<Rightarrow> s \<noteq> [])"

definition requested_type :: "Query \<Rightarrow> string option \<Rightarrow> string option" where
  "requested_type q forced_type = (if truthy_text forced_type then forced_type else q_type q)"

text \<open>
  \<open>raise ClientSideError(msg)\<close>: the module neither defines nor imports the name
  \<open>ClientSideError\<close> (it imports \<open>wsme\<close> and \<open>wsme.exc\<close>), so evaluating it raises
  \<open>NameError\<close>.
\<close>

definition raise_ClientSideError :: "pyexc + 'b" where
  "raise_ClientSideError = Inl (NameError ''ClientSideError'')"

text \<open>The body of the \<open>try\<close> in \<open>_get_value_as_type\<close>.\<close>

definition convert_value :: "'a converters \<Rightarrow> Query \<Rightarrow> string option \<Rightarrow> pyexc + 'a converted" where
  "convert_value cv q type =
     (if \<not> truthy_text type then
        (case literal_eval cv (q_value q) of
           Inr v \<Rightarrow> Inr (Converted v)
         | Inl ValueError \<Rightarrow> Inr (Unconverted (q_value q))
         | Inl SyntaxError \<Rightarrow> Inr (Unconverted (q_value q))
         | Inl e \<Rightarrow> Inl e)
      else
        (case type of
           None \<Rightarrow> Inl TypeError
         | Some t \<Rightarrow>
             if t \<notin> set supported_types then Inl TypeError
             else (case type_converters cv t of
                     None \<Rightarrow> Inl (KeyError t)
                   | Some f \<Rightarrow> (case f (q_value q) of Inl e \<Rightarrow> Inl e | Inr v \<Rightarrow> Inr (Converted v)))))"

text \<open>
  \<open>Query._get_value_as_type\<close>: the three handlers (\<open>ValueError\<close>, \<open>TypeError\<close>, any other
  \<open>Exception\<close>) each build a message and raise \<open>ClientSideError\<close>.
\<close>

definition get_value_as_type :: "'a converters \<Rightarrow> Query \<Rightarrow> string option \<Rightarrow> pyexc + 'a converted" where
  "get_value_as_type cv q forced_type =
     (case convert_value cv q (requested_type q forced_type) of
        Inr converted_value \<Rightarrow> Inr converted_value
      | Inl ValueError \<Rightarrow> raise_ClientSideError
      | Inl TypeError \<Rightarrow> raise_ClientSideError
      | Inl e \<Rightarrow> raise_ClientSideError)"

section \<open>Identifier shapes (iot/common/utils.py)\<close>

text \<open>
  Modelled from the spec: iot/common/utils.py (\<open>is_int_like\<close>, \<open>is_uuid_like\<close>,
  \<open>generate_uuid\<close>) is not among the sources. The spec speaks of an integer-like and of a
  UUID-like identifier and gives \<open>42\<close> and \<open>bd9431c1-8d69-4ad3-803a-8d4a6b89fd36\<close> as
  examples. Integer-like is taken as: an integer, or the decimal text Python prints for an
  integer (no sign but a leading minus, no leading zero, no blank). UUID-like is taken as
  the text Python prints for a UUID: 8-4-4-4-12 lower-case hexadecimal digits.
  \<open>generate_uuid\<close> is a parameter of \<open>create_device\<close>.
\<close>

definition is_digit :: "char \<Rightarrow> bool" where
  "is_digit c = (c \<in> set ''0123456789'')"

definition is_hex :: "char \<Rightarrow> bool" where
  "is_hex c = (c \<in> set ''0123456789abcdef'')"

definition decimal_text :: "string \<Rightarrow> bool" where
  "decimal_text s = (s \<noteq> [] \<and> list_all is_digit s \<and> (take 1 s = ''0'' \<longrightarrow> s = ''0''))"

definition int_text :: "string \<Rightarrow> bool" where
  "int_text s = (case s of
                   [] \<Rightarrow> False
                 | c # ds \<Rightarrow> if c = CHR ''-'' then decimal_text ds \<and> ds \<noteq> ''0'' else decimal_text s)"

definition digits_value :: "string \<Rightarrow> nat" where
  "digits_value s = foldl (\<lambda>n c. 10 * n + (of_char c - 48)) 0 s"

definition int_of_text :: "string \<Rightarrow> int" where
  "int_of_text s = (case s of
                      [] \<Rightarrow> 0
                    | c # ds \<Rightarrow> if c = CHR ''-'' then - int (digits_value ds) else int (digits_value s))"

definition uuid_text :: "string \<Rightarrow> bool" where
  "uuid_text s =
     (length s = 36
      \<and> list_all is_hex (take 8 s) \<and> s ! 8 = CHR ''-''
      \<and> list_all is_hex (take 4 (drop 9 s)) \<and> s ! 13 = CHR ''-''
      \<and> list_all is_hex (take 4 (drop 14 s)) \<and> s ! 18 = CHR ''-''
      \<and> list_all is_hex (take 4 (drop 19 s)) \<and> s ! 23 = CHR ''-''
      \<and> list_all is_hex (drop 24 s))"

fun is_int_like :: "pyval \<Rightarrow> bool" where
  "is_int_like PNone = False"
| "is_int_like (PInt n) = True"
| "is_int_like (PStr s) = int_text s"

fun is_uuid_like :: "pyval \<Rightarrow> bool" where
  "is_uuid_like (PStr s) = uuid_text s"
| "is_uuid_like v = False"

section \<open>The device table (iot/db/sqlalchemy/models.py)\<close>

text \<open>
  An instance of the model class \<open>Device\<close> is its attribute dictionary. The class declares
  the columns \<open>id\<close> (Integer, primary key), \<open>project_id\<close>, \<open>user_id\<close>, \<open>uuid\<close> (unique:
  \<open>uniq_device0uuid\<close>), \<open>name\<close> and \<open>desc\<close>. The two timestamp columns that oslo.db's
  \<open>TimestampMixin\<close> adds and maintains are outside the model.
\<close>

type_synonym db_device = "string \<rightharpoonup> pyval"

type_synonym pydict = "string \<rightharpoonup> pyval"

definition device_columns :: "string list" where
  "device_columns = [''id'', ''project_id'', ''user_id'', ''uuid'', ''name'', ''desc'']"

text \<open>A column attribute that was never assigned reads as \<open>None\<close>.\<close>

definition column :: "db_device \<Rightarrow> string \<Rightarrow> pyval" where
  "column r c = (case r c of None \<Rightarrow> PNone | Some v \<Rightarrow> v)"

text \<open>
  \<open>ModelBase.__getitem__\<close> of oslo.db is \<open>getattr(self, key)\<close>: a column always reads, any
  other name reads only when the instance carries that attribute.
\<close>

definition db_getitem :: "db_device \<Rightarrow> string \<Rightarrow> pyexc + pyval" where
  "db_getitem r k =
     (if k \<in> set device_columns then Inr (column r k)
      else case r k of None \<Rightarrow> Inl (AttributeError k) | Some v \<Rightarrow> Inr v)"

text \<open>\<open>ModelBase.update(values)\<close>: \<open>setattr(self, k, v)\<close> for every item of \<open>values\<close>.\<close>

definition db_update :: "db_device \<Rightarrow> pydict \<Rightarrow> db_device" where
  "db_update r vals = r ++ vals"



section \<open>The relational engine\<close>

text \<open>
  SQLAlchemy and the database behind it are external; this is their model. The table is
  the list of its rows, oldest first. A value bound to the Integer column \<open>id\<close> is read as
  an integer when it is the decimal text of one; no other conversion between integers and
  text is modelled, values are stored as given.
\<close>

type_synonym store = "db_device list"

definition bind_id :: "pyval \<Rightarrow> pyval" where
  "bind_id v = (case v of PStr s \<Rightarrow> if int_text s then PInt (int_of_text s) else v | _ \<Rightarrow> v)"

definition bind_param :: "string \<Rightarrow> pyval \<Rightarrow> pyval" where
  "bind_param c v = (if c = ''id'' then bind_id v else v)"

text \<open>What the table keeps of an instance: its columns.\<close>

definition stored_row :: "db_device \<Rightarrow> db_device" where
  "stored_row r = (\<lambda>c. if c \<in> set device_columns then Some (bind_param c (column r c)) else None)"

text \<open>
  The \<open>WHERE\<close> clause. An atom compares a column with a bound value; a criterion is
  \<open>or_(and_(...), ...)\<close>; comparisons follow SQL's three-valued logic, where \<open>None\<close> is
  unknown and a row is selected only when every criterion is true. SQLAlchemy writes an
  equality with \<open>None\<close> as \<open>IS NULL\<close>, which is true or false; an inequality with \<open>None\<close>
  stays a comparison with \<open>NULL\<close>, which is unknown.
  Values of different kinds are ordered as SQLite orders them: integers before text.
\<close>

datatype atom = Eq string pyval | Gt string pyval | Lt string pyval

type_synonym criterion = "atom list list"

datatype direction = Asc | Desc

record query =
  q_where :: "criterion list"
  q_order_by :: "(string \<times> direction) list"
  q_limit :: "nat option"

fun sort_code :: "pyval \<Rightarrow> nat \<times> int \<times> string" where
  "sort_code PNone = (0, 0, [])"
| "sort_code (PInt n) = (1, n, [])"
| "sort_code (PStr s) = (2, 0, s)"

definition sql_equal :: "pyval \<Rightarrow> pyval \<Rightarrow> bool option" where
  "sql_equal a b = (if a = PNone \<or> b = PNone then None else Some (a = b))"

definition sql_less :: "pyval \<Rightarrow> pyval \<Rightarrow> bool option" where
  "sql_less a b = (if a = PNone \<or> b = PNone then None else Some (sort_code a < sort_code b))"

fun eval_atom :: "db_device \<Rightarrow> atom \<Rightarrow> bool option" where
  "eval_atom r (Eq c v) =
     (if bind_param c v = PNone then Some (column r c = PNone)
      else sql_equal (column r c) (bind_param c v))"
| "eval_atom r (Gt c v) = sql_less (bind_param c v) (column r c)"
| "eval_atom r (Lt c v) = sql_less (column r c) (bind_param c v)"

definition sql_and :: "bool option list \<Rightarrow> bool option" where
  "sql_and bs = (if Some False \<in> set bs then Some False
                 else if None \<in> set bs then None else Some True)"

definition sql_or :: "bool option list \<Rightarrow> bool option" where
  "sql_or bs = (if Some True \<in> set bs then Some True
                else if None \<in> set bs then None else Some False)"

definition eval_criterion :: "db_device \<Rightarrow> criterion \<Rightarrow> bool option" where
  "eval_criterion r crit = sql_or (map (\<lambda>conj. sql_and (map (eval_atom r) conj)) crit)"

definition selects :: "query \<Rightarrow> db_device \<Rightarrow> bool" where
  "selects q r = list_all (\<lambda>crit. eval_criterion r crit = Some True) (q_where q)"

text \<open>
  \<open>ORDER BY\<close>: \<open>row_less ks r1 r2\<close> says that \<open>r1\<close> sorts strictly before \<open>r2\<close> under the
  keys \<open>ks\<close>, compared one after the other; \<open>NULL\<close> sorts first in ascending order, as
  in SQLite and MySQL. Rows that compare equal keep the table's order.
\<close>

fun row_less :: "(string \<times> direction) list \<Rightarrow> db_device \<Rightarrow> db_device \<Rightarrow> bool" where
  "row_less [] r1 r2 = False"
| "row_less ((c, d) # ks) r1 r2 =
     (if sort_code (column r1 c) = sort_code (column r2 c) then row_less ks r1 r2
      else case d of
             Asc \<Rightarrow> sort_code (column r1 c) < sort_code (column r2 c)
           | Desc \<Rightarrow> sort_code (column r2 c) < sort_code (column r1 c))"

fun insert_row :: "(string \<times> direction) list \<Rightarrow> db_device \<Rightarrow> db_device list \<Rightarrow> db_device list" where
  "insert_row ks r [] = [r]"
| "insert_row ks r (x # xs) =
     (if \<not> row_less ks x r then r # x # xs else x # insert_row ks r xs)"

definition order_rows :: "(string \<times> direction) list \<Rightarrow> db_device list \<Rightarrow> db_device list" where
  "order_rows ks rows = foldr (insert_row ks) rows []"

text \<open>\<open>model_query(models.Device)\<close>, \<open>filter_by\<close>, \<open>all\<close>, \<open>one\<close> and \<open>delete\<close>.\<close>

definition model_query :: query where
  "model_query = \<lparr>q_where = [], q_order_by = [], q_limit = None\<rparr>"

definition filter_by :: "query \<Rightarrow> string \<Rightarrow> pyval \<Rightarrow> pyexc + query" where
  "filter_by q c v =
     (if c \<in> set device_columns then Inr (q\<lparr>q_where := q_where q @ [[[Eq c v]]]\<rparr>)
      else Inl (InvalidRequestError c))"

definition query_all :: "store \<Rightarrow> query \<Rightarrow> db_device list" where
  "query_all s q =
     (let rows = order_rows (q_order_by q) (filter (selects q) s)
      in case q_limit q of None \<Rightarrow> rows | Some n \<Rightarrow> take n rows)"

definition query_one :: "store \<Rightarrow> query \<Rightarrow> pyexc + db_device" where
  "query_one s q =
     (case query_all s q of
        [] \<Rightarrow> Inl NoResultFound
      | [r] \<Rightarrow> Inr r
      | r # r' # rs \<Rightarrow> Inl MultipleResultsFound)"



definition key_conflict :: "store \<Rightarrow> db_device \<Rightarrow> bool" where
  "key_conflict s r =
     list_ex (\<lambda>x. column x ''id'' = column r ''id''
                  \<or> (column r ''uuid'' \<noteq> PNone \<and> column x ''uuid'' = column r ''uuid'')) s"


definition db_commit :: "store \<Rightarrow> db_device \<Rightarrow> db_device \<Rightarrow> pyexc + store" where
  "db_commit s ref ref' =
     (let others = filter (\<lambda>x. column x ''id'' \<noteq> column ref ''id'') s
      in if column (stored_row ref') ''id'' = PNone then Inl DBError
         else if key_conflict others (stored_row ref') then Inl DBDuplicateEntry
         else Inr (map (\<lambda>x. if column x ''id'' = column ref ''id'' then stored_row ref' else x) s))"

section \<open>Storage backend (iot/db/sqlalchemy/api.py)\<close>

text \<open>
  Every operation takes the store and returns the store it leaves with its outcome: a
  transaction that raises is rolled back, so an error comes with the store as it was.
\<close>

definition add_identity_filter :: "query \<Rightarrow> pyval \<Rightarrow> pyexc + query" where
  "add_identity_filter q v =
     (if is_int_like v then filter_by q ''id'' v
      else if is_uuid_like v then filter_by q ''uuid'' v
      else Inl (InvalidIdentity v))"


definition get_device_by_id :: "store \<Rightarrow> pyval \<Rightarrow> pyexc + db_device" where
  "get_device_by_id s device_id =
     (case filter_by model_query ''id'' device_id of
        Inl e \<Rightarrow> Inl e
      | Inr q \<Rightarrow>
          (case query_one s q of
             Inl NoResultFound \<Rightarrow> Inl (DeviceNotFound device_id)
           | Inl e \<Rightarrow> Inl e
           | Inr r \<Rightarrow> Inr r))"



text \<open>
  \<open>_do_update_device\<close>; \<open>utcnow\<close> is what \<open>timeutils.utcnow()\<close> returns. The whole body
  runs in one transaction (\<open>with session.begin()\<close>): it yields one new store or, on an
  error, the old one. \<open>with_lockmode('update')\<close> locks the row against other sessions and
  changes nothing for the one caller modelled here.
\<close>

definition do_update_device :: "pyval \<Rightarrow> store \<Rightarrow> pyval \<Rightarrow> pydict \<Rightarrow> store \<times> (pyexc + db_device)" where
  "do_update_device utcnow s device_id vals =
     (case add_identity_filter model_query device_id of
        Inl e \<Rightarrow> (s, Inl e)
      | Inr q \<Rightarrow>
          (case query_one s q of
             Inl NoResultFound \<Rightarrow> (s, Inl (DeviceNotFound device_id))
           | Inl e \<Rightarrow> (s, Inl e)
           | Inr ref \<Rightarrow>
               (let vals = (if vals ''provision_state'' \<noteq> None
                            then vals(''provision_updated_at'' \<mapsto> utcnow) else vals);
                    ref' = db_update ref vals
                in case db_commit s ref ref' of
                     Inl e \<Rightarrow> (s, Inl e)
                   | Inr s' \<Rightarrow> (s', Inr ref'))))"

definition update_device :: "pyval \<Rightarrow> store \<Rightarrow> pyval \<Rightarrow> pydict \<Rightarrow> store \<times> (pyexc + db_device)" where
  "update_device utcnow s device_id vals =
     (if vals ''uuid'' \<noteq> None
      then (s, Inl (InvalidParameterValue ''Cannot overwrite UUID for an existing Device.''))
      else do_update_device utcnow s device_id vals)"

section \<open>Domain object (iot/objects/device.py)\<close>

text \<open>
  Modelled from the spec: iot/objects/base.py (\<open>IoTObject\<close>: item access,
  \<open>obj_get_changes\<close>, \<open>obj_reset_changes\<close>) is not among the sources. After the spec, a
  domain object holds the values of its fields and the set of fields changed since it was
  loaded or last saved: setting a field stores the value as it is and records the field as
  changed, \<open>obj_get_changes\<close> is the dictionary of the changed fields with their current
  values, \<open>obj_reset_changes\<close> empties the set. Reading a field that has no value raises.
\<close>

record iot_object =
  attrs :: "string \<rightharpoonup> pyval"
  changed_fields :: "string set"

definition new_object :: iot_object where
  "new_object = \<lparr>attrs = Map.empty, changed_fields = {}\<rparr>"

definition obj_setitem :: "iot_object \<Rightarrow> string \<Rightarrow> pyval \<Rightarrow> iot_object" where
  "obj_setitem obj f v =
     obj\<lparr>attrs := (attrs obj)(f \<mapsto> v), changed_fields := insert f (changed_fields obj)\<rparr>"

definition obj_getitem :: "iot_object \<Rightarrow> string \<Rightarrow> pyexc + pyval" where
  "obj_getitem obj f = (case attrs obj f of None \<Rightarrow> Inl (NotImplementedError f) | Some v \<Rightarrow> Inr v)"

definition obj_get_changes :: "iot_object \<Rightarrow> pydict" where
  "obj_get_changes obj = attrs obj |` changed_fields obj"

definition obj_reset_changes :: "iot_object \<Rightarrow> iot_object" where
  "obj_reset_changes obj = obj\<lparr>changed_fields := {}\<rparr>"

text \<open>Every changed field has a value: true of a new object and kept by the operations.\<close>

definition obj_consistent :: "iot_object \<Rightarrow> bool" where
  "obj_consistent obj = (changed_fields obj \<subseteq> dom (attrs obj))"

text \<open>
  The names of \<open>Device.fields\<close>. Their types (\<open>int\<close> for \<open>id\<close>, \<open>str_or_none\<close> for the
  others) leave the values of a table row as they are.
\<close>

definition device_fields :: "string list" where
  "device_fields = [''id'', ''uuid'', ''name'', ''project_id'', ''user_id'', ''image_id'']"

text \<open>\<open>for field in device.fields: device[field] = db_device[field]\<close>.\<close>

fun copy_fields :: "string list \<Rightarrow> iot_object \<Rightarrow> db_device \<Rightarrow> pyexc + iot_object" where
  "copy_fields [] device db_device = Inr device"
| "copy_fields (field # rest) device db_device =
     (case db_getitem db_device field of
        Inl e \<Rightarrow> Inl e
      | Inr v \<Rightarrow> copy_fields rest (obj_setitem device field v) db_device)"

text \<open>\<open>Device._from_db_object\<close>.\<close>

definition Device_from_db_object :: "iot_object \<Rightarrow> db_device \<Rightarrow> pyexc + iot_object" where
  "Device_from_db_object device db_device =
     (case copy_fields device_fields device db_device of
        Inl e \<Rightarrow> Inl e
      | Inr device' \<Rightarrow> Inr (obj_reset_changes device'))"

text \<open>\<open>Device.get_by_id\<close>, \<open>Device.get_by_uuid\<close> and \<open>Device.get\<close>; \<open>cls(context)\<close> is a new object.\<close>

definition Device_get_by_id :: "store \<Rightarrow> pyval \<Rightarrow> pyexc + iot_object" where
  "Device_get_by_id s device_id =
     (case get_device_by_id s device_id of
        Inl e \<Rightarrow> Inl e
      | Inr db_device \<Rightarrow> Device_from_db_object new_object db_device)"



text \<open>
  \<open>Device.save\<close>. The storage backend is the class attribute \<open>dbapi\<close>; its
  \<open>update_device\<close> is the first argument, which takes the identifier, the values and the
  backend's state.
\<close>

definition Device_save ::
  "(pyval \<Rightarrow> pydict \<Rightarrow> 'st \<Rightarrow> 'st \<times> (pyexc + 'r)) \<Rightarrow> 'st \<Rightarrow> iot_object \<Rightarrow> 'st \<times> (pyexc + iot_object)" where
  "Device_save dbapi_update_device s self =
     (let updates = obj_get_changes self
      in case obj_getitem self ''uuid'' of
           Inl e \<Rightarrow> (s, Inl e)
         | Inr uuid \<Rightarrow>
             (case dbapi_update_device uuid updates s of
                (s', Inl e) \<Rightarrow> (s', Inl e)
              | (s', Inr r) \<Rightarrow> (s', Inr (obj_reset_changes self))))"

section \<open>Listing and pagination (iot/db/sqlalchemy/api.py)\<close>








text \<open>
  A consistent snapshot of the table: every \<open>id\<close> is an integer and no two rows share one
  (the primary key).
\<close>

definition consistent :: "store \<Rightarrow> bool" where
  "consistent s =
     (distinct (map (\<lambda>r. column r ''id'') s)
      \<and> list_all (\<lambda>r. case column r ''id'' of PInt n \<Rightarrow> True | _ \<Rightarrow> False) s)"

text \<open>
  The unique constraint on \<open>uuid\<close>: two rows with the same uuid that is not \<open>NULL\<close> are
  one row.
\<close>

definition unique_uuids :: "store \<Rightarrow> bool" where
  "unique_uuids s =
     list_all (\<lambda>x. list_all (\<lambda>y. column x ''uuid'' = PNone
                                   \<or> column x ''uuid'' \<noteq> column y ''uuid''
                                   \<or> column x ''id'' = column y ''id'') s) s"





section \<open>Examples for concrete evaluation\<close>

text \<open>Two rows of the device table, for concrete evaluation.\<close>

definition device1 :: db_device where
  "device1 = [''id'' \<mapsto> PInt 1, ''uuid'' \<mapsto> PStr ''bd9431c1-8d69-4ad3-803a-8d4a6b89fd36'',
              ''name'' \<mapsto> PStr ''sensor1'']"

definition device2 :: db_device where
  "device2 = [''id'' \<mapsto> PInt 2, ''uuid'' \<mapsto> PStr ''0a1b2c3d-0000-4000-8000-00000000beef'',
              ''name'' \<mapsto> PStr ''sensor2'']"


text \<open>
  A domain object as loaded, and a storage backend whose \<open>update_device\<close> only records the
  identifier and, field by field, the values it was called with.
\<close>

definition loaded_object :: iot_object where
  "loaded_object =
     \<lparr>attrs = [''id'' \<mapsto> PInt 1, ''uuid'' \<mapsto> PStr ''bd9431c1-8d69-4ad3-803a-8d4a6b89fd36'',
               ''name'' \<mapsto> PStr ''sensor1''],
      changed_fields = {}\<rparr>"

definition recording_update ::
  "pyval \<Rightarrow> pydict \<Rightarrow> (pyval \<times> (string \<times> pyval option) list) list
     \<Rightarrow> (pyval \<times> (string \<times> pyval option) list) list \<times> (pyexc + unit)" where
  "recording_update device_id vals calls =
     (calls @ [(device_id, map (\<lambda>f. (f, vals f)) device_fields)], Inr ())"

text \<open>A converter table for concrete evaluation: \<open>int\<close> reads \<open>42\<close>, \<open>parse_isotime\<close>
  reads one timestamp (as seconds since 1970), everything else is rejected.\<close>

definition example_converters :: "int converters" where
  "example_converters =
     \<lparr>conv_int = (\<lambda>s. if s = ''42'' then Inr 42 else Inl ValueError),
      conv_float = (\<lambda>s. Inl ValueError),
      bool_from_string = (\<lambda>s. Inl ValueError),
      conv_text_type = (\<lambda>s. Inl ValueError),
      parse_isotime = (\<lambda>s. if s = ''2015-01-01T00:00:00'' then Inr 1420070400 else Inl ValueError),
      literal_eval = (\<lambda>s. Inl ValueError)\<rparr>"

section \<open>Properties\<close>

subsection \<open>The controller exception boundary\<close>

text \<open>
  Claim C8. For every exception escaping a wrapped controller method: an \<open>IoTException\<close>
  with code below 500 reaches the client as its own message with that status code; an
  exception with code 500 or more, or one that is not an \<open>IoTException\<close>, reaches the
  client as the fixed obfuscated message built from the correlation id alone, so two such
  exceptions with the same correlation id give the same text whatever they carry.
\<close>

theorem wrap_controller_exception_boundary:
  "(c < 500 \<longrightarrow>
      wrap_wsme_controller_exception (Inl (IoTException c m) :: excp + 'a) cid
        = Inl (ClientSideError m c))
   \<and> (500 \<le> c \<longrightarrow>
      wrap_wsme_controller_exception (Inl (IoTException c m) :: excp + 'a) cid
        = Inl (ClientSideError (OBFUSCATED_MSG cid) c))
   \<and> wrap_wsme_controller_exception (Inl (OtherException s) :: excp + 'a) cid
        = Inl (ClientSideError (OBFUSCATED_MSG cid) 500)
   \<and> (500 \<le> http_error_code_of e1 \<and> 500 \<le> http_error_code_of e2 \<longrightarrow>
        (\<exists>s1 s2.
           wrap_wsme_controller_exception (Inl e1 :: excp + 'a) cid
             = Inl (ClientSideError (OBFUSCATED_MSG cid) s1)
         \<and> wrap_wsme_controller_exception (Inl e2 :: excp + 'a) cid
             = Inl (ClientSideError (OBFUSCATED_MSG cid) s2)))"
  by (cases e1; cases e2)
     (simp_all add: wrap_wsme_controller_exception_def wrap_controller_exception_def
        http_error_code_of_def text_type_def)

theorem wrap_controller_exception_boundary_witness:
  "wrap_wsme_controller_exception (Inl (IoTException 404 ''Device 7 could not be found.'') :: excp + unit)
       ''c0ffee'' = Inl (ClientSideError ''Device 7 could not be found.'' 404)
   \<and> wrap_wsme_controller_exception (Inl (IoTException 500 ''An unknown exception occurred.'') :: excp + unit)
       ''c0ffee'' = Inl (ClientSideError (OBFUSCATED_MSG ''c0ffee'') 500)
   \<and> (\<exists>s1 s2.
         wrap_wsme_controller_exception (Inl (IoTException 501 ''secret'') :: excp + unit) ''c0ffee''
           = Inl (ClientSideError (OBFUSCATED_MSG ''c0ffee'') s1)
       \<and> wrap_wsme_controller_exception (Inl (OtherException ''traceback'') :: excp + unit) ''c0ffee''
           = Inl (ClientSideError (OBFUSCATED_MSG ''c0ffee'') s2))"
  using wrap_controller_exception_boundary
          [of 404 "''Device 7 could not be found.''" "''c0ffee''" "''x''"
              "IoTException 501 ''secret''" "OtherException ''traceback''", where ?'a = unit]
        wrap_controller_exception_boundary
          [of 500 "''An unknown exception occurred.''" "''c0ffee''" "''x''"
              "IoTException 501 ''secret''" "OtherException ''traceback''", where ?'a = unit]
  by (simp add: http_error_code_of_def)

subsection \<open>Query value coercion\<close>

lemma get_value_as_type_error:
  "convert_value cv q (requested_type q ft) = Inl e \<Longrightarrow>
   get_value_as_type cv q ft = Inl (NameError ''ClientSideError'')"
  by (cases e) (simp_all add: get_value_as_type_def raise_ClientSideError_def)

lemma get_value_as_type_ok:
  "convert_value cv q (requested_type q ft) = Inr v \<Longrightarrow> get_value_as_type cv q ft = Inr v"
  by (simp add: get_value_as_type_def)

lemma type_converters_supported:
  "type_converters cv ''integer'' = Some (conv_int cv)"
  "type_converters cv ''float'' = Some (conv_float cv)"
  "type_converters cv ''boolean'' = Some (bool_from_string cv)"
  "type_converters cv ''string'' = Some (conv_text_type cv)"
  by (simp_all add: type_converters_def)

lemma convert_value_supported:
  assumes "type_converters cv t = Some f" and "t \<in> set supported_types"
  shows "convert_value cv q (Some t) =
           (case f (q_value q) of Inl e \<Rightarrow> Inl e | Inr v \<Rightarrow> Inr (Converted v))"
proof -
  from assms(2) have "t \<noteq> []" by (auto simp: supported_types_def)
  with assms show ?thesis by (simp add: convert_value_def truthy_text_def)
qed

lemma convert_value_unsupported:
  assumes "t \<noteq> []" and "t \<notin> set supported_types"
  shows "convert_value cv q (Some t) = Inl TypeError"
  using assms by (simp add: convert_value_def truthy_text_def)

text \<open>
  Claim C9, as the code has it. For every Query whose requested type \<open>t\<close> is not empty:
  for each of the supported types integer, float, boolean and string the coercion succeeds
  exactly when the corresponding converter accepts the value, and returns what the
  converter returned; for every other type, datetime among them, it raises.
\<close>

theorem get_value_as_type_coercion:
  assumes "requested_type q ft = Some t" and "t \<noteq> []"
  shows "(t = ''integer'' \<longrightarrow>
            (get_value_as_type cv q ft = Inr r \<longleftrightarrow> (\<exists>v. conv_int cv (q_value q) = Inr v \<and> r = Converted v)))
       \<and> (t = ''float'' \<longrightarrow>
            (get_value_as_type cv q ft = Inr r \<longleftrightarrow> (\<exists>v. conv_float cv (q_value q) = Inr v \<and> r = Converted v)))
       \<and> (t = ''boolean'' \<longrightarrow>
            (get_value_as_type cv q ft = Inr r \<longleftrightarrow> (\<exists>v. bool_from_string cv (q_value q) = Inr v \<and> r = Converted v)))
       \<and> (t = ''string'' \<longrightarrow>
            (get_value_as_type cv q ft = Inr r \<longleftrightarrow> (\<exists>v. conv_text_type cv (q_value q) = Inr v \<and> r = Converted v)))
       \<and> (t \<notin> {''integer'', ''float'', ''boolean'', ''string''} \<longrightarrow>
            (\<exists>e. get_value_as_type cv q ft = Inl e))"
proof -
  have sup: "get_value_as_type cv q ft = Inr r \<longleftrightarrow> (\<exists>v. f (q_value q) = Inr v \<and> r = Converted v)"
    if "type_converters cv t = Some f" and "t \<in> set supported_types" for f
  proof (cases "f (q_value q)")
    case (Inl e)
    with that assms have "convert_value cv q (requested_type q ft) = Inl e"
      by (simp add: convert_value_supported)
    then show ?thesis using Inl by (simp add: get_value_as_type_error)
  next
    case (Inr v)
    with that assms have "convert_value cv q (requested_type q ft) = Inr (Converted v)"
      by (simp add: convert_value_supported)
    then show ?thesis using Inr by (auto simp: get_value_as_type_ok)
  qed
  have unsup: "\<exists>e. get_value_as_type cv q ft = Inl e" if "t \<notin> set supported_types"
    using that assms by (simp add: convert_value_unsupported get_value_as_type_error)
  show ?thesis
  proof (intro conjI impI)
    assume "t = ''integer''"
    then show "get_value_as_type cv q ft = Inr r \<longleftrightarrow> (\<exists>v. conv_int cv (q_value q) = Inr v \<and> r = Converted v)"
      using sup [of "conv_int cv"] by (simp add: type_converters_supported supported_types_def)
  next
    assume "t = ''float''"
    then show "get_value_as_type cv q ft = Inr r \<longleftrightarrow> (\<exists>v. conv_float cv (q_value q) = Inr v \<and> r = Converted v)"
      using sup [of "conv_float cv"] by (simp add: type_converters_supported supported_types_def)
  next
    assume "t = ''boolean''"
    then show "get_value_as_type cv q ft = Inr r \<longleftrightarrow> (\<exists>v. bool_from_string cv (q_value q) = Inr v \<and> r = Converted v)"
      using sup [of "bool_from_string cv"] by (simp add: type_converters_supported supported_types_def)
  next
    assume "t = ''string''"
    then show "get_value_as_type cv q ft = Inr r \<longleftrightarrow> (\<exists>v. conv_text_type cv (q_value q) = Inr v \<and> r = Converted v)"
      using sup [of "conv_text_type cv"] by (simp add: type_converters_supported supported_types_def)
  next
    assume "t \<notin> {''integer'', ''float'', ''boolean'', ''string''}"
    then show "\<exists>e. get_value_as_type cv q ft = Inl e"
      using unsup by (simp add: supported_types_def)
  qed
qed

theorem get_value_as_type_coercion_witness:
  "requested_type \<lparr>q_field = ''id'', q_op = None, q_value = ''42'', q_type = Some ''integer''\<rparr> None
     = Some ''integer''
   \<and> get_value_as_type example_converters
        \<lparr>q_field = ''id'', q_op = None, q_value = ''42'', q_type = Some ''integer''\<rparr> None
      = Inr (Converted 42)"
  using get_value_as_type_coercion
          [of "\<lparr>q_field = ''id'', q_op = None, q_value = ''42'', q_type = Some ''integer''\<rparr>"
              None "''integer''" example_converters "Converted 42"]
  by (simp add: requested_type_def truthy_text_def example_converters_def)

text \<open>
  The claim as written fails for datetime: the type has a converter that accepts the
  value, yet the coercion raises.
\<close>

theorem get_value_as_type_datetime_counterexample:
  "parse_isotime example_converters ''2015-01-01T00:00:00'' = Inr 1420070400
   \<and> get_value_as_type example_converters
        \<lparr>q_field = ''created_at'', q_op = None, q_value = ''2015-01-01T00:00:00'',
         q_type = Some ''datetime''\<rparr> None
      = Inl (NameError ''ClientSideError'')"
  by (simp add: example_converters_def get_value_as_type_def convert_value_def
        requested_type_def truthy_text_def supported_types_def raise_ClientSideError_def)

subsection \<open>The relational engine\<close>

lemma insert_row_no_keys: "insert_row [] r xs = r # xs"
  by (cases xs) simp_all

lemma order_rows_no_keys: "order_rows [] xs = xs"
  by (induction xs) (simp_all add: order_rows_def insert_row_no_keys)


lemma query_all_unordered:
  "q_order_by q = [] \<Longrightarrow> q_limit q = None \<Longrightarrow> query_all s q = filter (selects q) s"
  by (simp add: query_all_def order_rows_no_keys)

lemma query_one_none:
  "q_order_by q = [] \<Longrightarrow> q_limit q = None \<Longrightarrow> filter (selects q) s = [] \<Longrightarrow>
   query_one s q = Inl NoResultFound"
  by (simp add: query_one_def query_all_unordered)

lemma query_one_single:
  "q_order_by q = [] \<Longrightarrow> q_limit q = None \<Longrightarrow> filter (selects q) s = [r] \<Longrightarrow>
   query_one s q = Inr r"
  by (simp add: query_one_def query_all_unordered)


lemma sql_and_single: "sql_and [b] = b"
  by (cases b) (auto simp: sql_and_def)

lemma sql_or_single: "sql_or [b] = b"
  by (cases b) (auto simp: sql_or_def)

lemma selects_eq:
  "selects (model_query\<lparr>q_where := [[[Eq c v]]]\<rparr>) r \<longleftrightarrow> column r c = bind_param c v"
  by (auto simp: selects_def model_query_def eval_criterion_def sql_or_single sql_and_single
        sql_equal_def)



lemma column_stored_row:
  "column (stored_row r) c = (if c \<in> set device_columns then bind_param c (column r c) else PNone)"
  by (simp add: column_def stored_row_def)


lemma bind_param_simps:
  "bind_param c (PInt n) = PInt n" "bind_param c PNone = PNone"
  "c \<noteq> ''id'' \<Longrightarrow> bind_param c v = v"
  "int_text t \<Longrightarrow> bind_param ''id'' (PStr t) = PInt (int_of_text t)"
  "\<not> int_text t \<Longrightarrow> bind_param c (PStr t) = PStr t"
  by (simp_all add: bind_param_def bind_id_def)


lemma consistent_ids:
  assumes "consistent s"
  shows "distinct s" and "\<And>a b. a \<in> set s \<Longrightarrow> b \<in> set s \<Longrightarrow> a \<noteq> b \<Longrightarrow> column a ''id'' \<noteq> column b ''id''"
    and "\<And>r. r \<in> set s \<Longrightarrow> \<exists>n. column r ''id'' = PInt n"
proof -
  from assms have d: "distinct (map (\<lambda>r. column r ''id'') s)" by (simp add: consistent_def)
  then show "distinct s" by (simp add: distinct_map)
  from d have "inj_on (\<lambda>r. column r ''id'') (set s)" by (simp add: distinct_map)
  then show "\<And>a b. a \<in> set s \<Longrightarrow> b \<in> set s \<Longrightarrow> a \<noteq> b \<Longrightarrow> column a ''id'' \<noteq> column b ''id''"
    by (auto dest: inj_onD)
  show "\<exists>n. column r ''id'' = PInt n" if "r \<in> set s" for r
    using assms that by (cases "column r ''id''") (auto simp: consistent_def list_all_iff)
qed

lemma filter_at_most_one:
  "distinct s \<Longrightarrow> (\<And>x y. x \<in> set s \<Longrightarrow> y \<in> set s \<Longrightarrow> P x \<Longrightarrow> P y \<Longrightarrow> x = y) \<Longrightarrow>
   filter P s = [] \<or> (\<exists>r. filter P s = [r])"
proof (induction s)
  case Nil
  then show ?case by simp
next
  case (Cons a s)
  show ?case
  proof (cases "P a")
    case True
    have "filter P s = []"
    proof (rule ccontr)
      assume "filter P s \<noteq> []"
      then obtain y where y: "y \<in> set s" "P y" by (auto simp: filter_empty_conv)
      with Cons.prems(2) [of a y] True have "a = y" by simp
      with y Cons.prems(1) show False by simp
    qed
    with True show ?thesis by simp
  next
    case False
    with Cons show ?thesis by auto
  qed
qed

subsection \<open>The examples, evaluated\<close>

lemma int_text_examples:
  "int_text ''1''" "int_text ''3''" "int_text ''42''" "\<not> int_text ''not-an-id''"
  "int_of_text ''1'' = 1" "int_of_text ''3'' = 3" "int_of_text ''42'' = 42"
  by (simp_all add: int_text_def decimal_text_def is_digit_def int_of_text_def digits_value_def)


lemma example_columns:
  "column device1 ''id'' = PInt 1" "column device2 ''id'' = PInt 2"
  "column device1 ''uuid'' = PStr ''bd9431c1-8d69-4ad3-803a-8d4a6b89fd36''"
  "column device2 ''uuid'' = PStr ''0a1b2c3d-0000-4000-8000-00000000beef''"
  "column device1 ''name'' = PStr ''sensor1''" "column device2 ''name'' = PStr ''sensor2''"
  by (simp_all add: column_def device1_def device2_def)


subsection \<open>Identity resolution\<close>






lemma add_identity_filter_cases:
  "add_identity_filter model_query v =
     (if is_int_like v then Inr (model_query\<lparr>q_where := [[[Eq ''id'' v]]]\<rparr>)
      else if is_uuid_like v then Inr (model_query\<lparr>q_where := [[[Eq ''uuid'' v]]]\<rparr>)
      else Inl (InvalidIdentity v))"
  by (simp add: add_identity_filter_def filter_by_def model_query_def device_columns_def)



subsection \<open>Updating a device\<close>

text \<open>
  On a consistent store with unique uuids a resolved identifier matches no row or one, and
  an update that leaves \<open>id\<close> and \<open>uuid\<close> alone always commits.
\<close>

lemma lookup_at_most_one:
  assumes "consistent s" and "unique_uuids s" and "add_identity_filter model_query ident = Inr q"
  shows "filter (selects q) s = [] \<or> (\<exists>r. filter (selects q) s = [r])"
proof (rule filter_at_most_one)
  show "distinct s" using assms(1) by (rule consistent_ids(1))
next
  fix x y assume xy: "x \<in> set s" "y \<in> set s" "selects q x" "selects q y"
  have same_id: "column x ''id'' = column y ''id''"
  proof (cases "is_int_like ident")
    case True
    with assms(3) have "q = model_query\<lparr>q_where := [[[Eq ''id'' ident]]]\<rparr>"
      by (simp add: add_identity_filter_cases)
    with xy show ?thesis by (simp add: selects_eq)
  next
    case False
    with assms(3) obtain t where t: "ident = PStr t" "q = model_query\<lparr>q_where := [[[Eq ''uuid'' ident]]]\<rparr>"
      by (cases ident) (auto simp: add_identity_filter_cases split: if_splits)
    with xy have "column x ''uuid'' = PStr t" "column y ''uuid'' = PStr t"
      by (simp_all add: selects_eq bind_param_simps)
    moreover from assms(2) xy(1,2)
    have "column x ''uuid'' = PNone \<or> column x ''uuid'' \<noteq> column y ''uuid''
            \<or> column x ''id'' = column y ''id''"
      unfolding unique_uuids_def list_all_iff by blast
    ultimately show ?thesis by simp
  qed
  show "x = y"
    using consistent_ids(2) [OF assms(1) xy(1,2)] same_id by blast
qed


text \<open>
  Claim C10. In \<open>update_device\<close> the check for \<open>uuid\<close> in the values comes before any
  lookup: for every values mapping that contains \<open>uuid\<close>, whatever the identifier and
  whatever the store holds, the call raises \<open>InvalidParameterValue\<close>, never
  \<open>DeviceNotFound\<close>, and leaves the store as it was.
\<close>

theorem update_device_uuid_checked_first:
  "vals ''uuid'' \<noteq> None \<Longrightarrow>
   update_device utcnow s device_id vals
     = (s, Inl (InvalidParameterValue ''Cannot overwrite UUID for an existing Device.''))
   \<and> snd (update_device utcnow s device_id vals) \<noteq> Inl (DeviceNotFound device_id)
   \<and> fst (update_device utcnow s device_id vals) = s"
  by (simp add: update_device_def)

theorem update_device_uuid_checked_first_witness:
  "update_device PNone [] (PStr ''42'') [''uuid'' \<mapsto> PStr ''u'', ''name'' \<mapsto> PStr ''n'']
     = ([], Inl (InvalidParameterValue ''Cannot overwrite UUID for an existing Device.''))
   \<and> update_device PNone [] (PStr ''42'') [''name'' \<mapsto> PStr ''n'']
     = ([], Inl (DeviceNotFound (PStr ''42'')))"
proof -
  let ?q = "model_query\<lparr>q_where := [[[Eq ''id'' (PStr ''42'')]]]\<rparr>"
  have f: "add_identity_filter model_query (PStr ''42'') = Inr ?q"
    by (simp add: add_identity_filter_cases int_text_examples)
  have "query_one [] ?q = Inl NoResultFound"
    by (rule query_one_none) (simp_all add: model_query_def)
  with f have "update_device PNone [] (PStr ''42'') [''name'' \<mapsto> PStr ''n'']
     = ([], Inl (DeviceNotFound (PStr ''42'')))"
    by (simp add: update_device_def do_update_device_def)
  then show ?thesis
    using update_device_uuid_checked_first
          [of "[''uuid'' \<mapsto> PStr ''u'', ''name'' \<mapsto> PStr ''n'']" PNone "[]" "PStr ''42''"]
    by simp
qed




subsection \<open>Destroying a device\<close>




subsection \<open>Creating a device\<close>













subsection \<open>The domain object\<close>

lemma db_getitem_stored_row:
  "db_getitem (stored_row r) k =
     (if k \<in> set device_columns then Inr (bind_param k (column r k)) else Inl (AttributeError k))"
  by (simp add: db_getitem_def column_stored_row) (simp add: stored_row_def)

lemma copy_fields_missing:
  assumes "k \<in> set fs" and "db_getitem r k = Inl e" and "\<forall>f\<in>set fs. f \<noteq> k \<longrightarrow> (\<exists>v. db_getitem r f = Inr v)"
  shows "copy_fields fs device r = Inl e"
  using assms
proof (induction fs arbitrary: device)
  case Nil
  then show ?case by simp
next
  case (Cons f fs)
  show ?case
  proof (cases "f = k")
    case True
    with Cons.prems show ?thesis by simp
  next
    case False
    with Cons.prems obtain v where v: "db_getitem r f = Inr v" by auto
    from False Cons.prems have "k \<in> set fs" by simp
    with Cons.IH Cons.prems have "copy_fields fs (obj_setitem device f v) r = Inl e" by simp
    with v show ?thesis by simp
  qed
qed

text \<open>
  Claim C7 says that the conversion of a storage row copies every declared field of the
  Device object from the row and leaves the change-set empty. The object declares the field
  \<open>image_id\<close>, the table has no such column: for every row of the table the conversion
  raises \<open>AttributeError\<close> at that field and builds no object.
\<close>

theorem from_db_object_raises:
  "Device_from_db_object device (stored_row r) = Inl (AttributeError ''image_id'')"
proof -
  have "copy_fields device_fields device (stored_row r) = Inl (AttributeError ''image_id'')"
    by (rule copy_fields_missing [where k = "''image_id''"])
       (auto simp: device_fields_def db_getitem_stored_row device_columns_def)
  then show ?thesis by (simp add: Device_from_db_object_def)
qed

text \<open>
  At a concrete store: the row is found, and its conversion raises.
\<close>

theorem from_db_object_example:
  "get_device_by_id [stored_row device1] (PInt 1) = Inr (stored_row device1)
   \<and> Device_get_by_id [stored_row device1] (PInt 1) = Inl (AttributeError ''image_id'')"
proof -
  let ?q = "model_query\<lparr>q_where := [[[Eq ''id'' (PInt 1)]]]\<rparr>"
  have f: "filter_by model_query ''id'' (PInt 1) = Inr ?q"
    by (simp add: filter_by_def model_query_def device_columns_def)
  have "filter (selects ?q) [stored_row device1] = [stored_row device1]"
    by (simp add: selects_eq column_stored_row device_columns_def example_columns bind_param_simps)
  then have "query_one [stored_row device1] ?q = Inr (stored_row device1)"
    by (intro query_one_single) (simp_all add: model_query_def)
  with f have "get_device_by_id [stored_row device1] (PInt 1) = Inr (stored_row device1)"
    by (simp add: get_device_by_id_def)
  then show ?thesis by (simp add: Device_get_by_id_def from_db_object_raises)
qed

lemma copy_fields_attrs:
  "copy_fields fs device r = Inr device' \<Longrightarrow>
     (\<forall>f\<in>set fs. \<exists>v. db_getitem r f = Inr v \<and> attrs device' f = Some v)
     \<and> (\<forall>f. f \<notin> set fs \<longrightarrow> attrs device' f = attrs device f)"
proof (induction fs arbitrary: device)
  case Nil
  then show ?case by simp
next
  case (Cons f fs)
  from Cons.prems obtain v where v: "db_getitem r f = Inr v"
    and c: "copy_fields fs (obj_setitem device f v) r = Inr device'"
    by (auto split: sum.splits)
  from Cons.IH [OF c] have ih: "\<forall>g\<in>set fs. \<exists>w. db_getitem r g = Inr w \<and> attrs device' g = Some w"
    "\<forall>g. g \<notin> set fs \<longrightarrow> attrs device' g = attrs (obj_setitem device f v) g" by simp_all
  show ?case
  proof (intro conjI ballI allI impI)
    fix g assume "g \<in> set (f # fs)"
    show "\<exists>w. db_getitem r g = Inr w \<and> attrs device' g = Some w"
    proof (cases "g \<in> set fs")
      case True
      with ih show ?thesis by simp
    next
      case False
      with \<open>g \<in> set (f # fs)\<close> have "g = f" by simp
      with False ih(2) v show ?thesis by (simp add: obj_setitem_def)
    qed
  next
    fix g assume "g \<notin> set (f # fs)"
    with ih(2) show "attrs device' g = attrs device g" by (simp add: obj_setitem_def)
  qed
qed

text \<open>
  Where the conversion does return (the instance carries an attribute \<open>image_id\<close>, as the
  one \<open>create_device\<close> returns does when the values had it), it copies every declared field
  as read from the instance and leaves the change-set empty.
\<close>

lemma from_db_object_copies:
  assumes "Device_from_db_object device r = Inr device'"
  shows "changed_fields device' = {}
       \<and> (\<forall>f\<in>set device_fields. \<exists>v. db_getitem r f = Inr v \<and> attrs device' f = Some v)"
proof -
  from assms obtain d where c: "copy_fields device_fields device r = Inr d"
    and d: "device' = obj_reset_changes d"
    by (auto simp: Device_from_db_object_def split: sum.splits)
  from copy_fields_attrs [OF c] d show ?thesis by (simp add: obj_reset_changes_def)
qed

lemma obj_consistent_new: "obj_consistent new_object"
  by (simp add: obj_consistent_def new_object_def)

lemma obj_consistent_setitem: "obj_consistent obj \<Longrightarrow> obj_consistent (obj_setitem obj f v)"
  by (auto simp: obj_consistent_def obj_setitem_def)

lemma obj_consistent_reset: "obj_consistent (obj_reset_changes obj)"
  by (simp add: obj_consistent_def obj_reset_changes_def)

lemma obj_get_changes_dom:
  "obj_consistent obj \<Longrightarrow> dom (obj_get_changes obj) = changed_fields obj"
  by (auto simp: obj_consistent_def obj_get_changes_def restrict_map_def split: if_splits)

lemma obj_get_changes_value:
  "f \<in> changed_fields obj \<Longrightarrow> obj_get_changes obj f = attrs obj f"
  by (simp add: obj_get_changes_def)

lemma obj_get_changes_unchanged:
  "f \<notin> changed_fields obj \<Longrightarrow> obj_get_changes obj f = None"
  by (simp add: obj_get_changes_def)

text \<open>
  Claim C6. For every Device object, a successful \<open>save\<close> has called the backend's
  \<open>update_device\<close> with the object's uuid and with \<open>obj_get_changes\<close>, whose keys are
  exactly the changed fields and whose values are their current values (a field that is
  not in the change-set is not in the payload); afterwards the change-set is empty and the
  field values are as before.
\<close>

theorem Device_save_changes:
  assumes "obj_consistent self" and "Device_save upd s self = (s', Inr self')"
  shows "\<exists>u r. obj_getitem self ''uuid'' = Inr u
           \<and> upd u (obj_get_changes self) s = (s', Inr r)
           \<and> dom (obj_get_changes self) = changed_fields self
           \<and> (\<forall>f\<in>changed_fields self. obj_get_changes self f = attrs self f)
           \<and> changed_fields self' = {}
           \<and> attrs self' = attrs self"
proof -
  from assms(2) obtain u where u: "obj_getitem self ''uuid'' = Inr u"
    by (cases "obj_getitem self ''uuid''") (simp_all add: Device_save_def)
  obtain s2 res where call: "upd u (obj_get_changes self) s = (s2, res)"
    by (cases "upd u (obj_get_changes self) s")
  from assms(2) u call obtain r where r: "res = Inr r" and s2: "s2 = s'"
      and self': "self' = obj_reset_changes self"
    by (cases res) (simp_all add: Device_save_def)
  from self' have "changed_fields self' = {}" "attrs self' = attrs self"
    by (simp_all add: obj_reset_changes_def)
  with u call r s2 obj_get_changes_dom [OF assms(1)] obj_get_changes_value [of _ self]
  show ?thesis by blast
qed

theorem Device_save_changes_witness:
  "obj_consistent (obj_setitem loaded_object ''name'' (PStr ''renamed''))
   \<and> Device_save recording_update [] (obj_setitem loaded_object ''name'' (PStr ''renamed''))
      = ([(PStr ''bd9431c1-8d69-4ad3-803a-8d4a6b89fd36'',
           [(''id'', None), (''uuid'', None), (''name'', Some (PStr ''renamed'')),
            (''project_id'', None), (''user_id'', None), (''image_id'', None)])],
         Inr (obj_reset_changes (obj_setitem loaded_object ''name'' (PStr ''renamed''))))
   \<and> changed_fields (obj_reset_changes (obj_setitem loaded_object ''name'' (PStr ''renamed''))) = {}
   \<and> dom (obj_get_changes (obj_setitem loaded_object ''name'' (PStr ''renamed''))) = {''name''}"
proof -
  let ?self = "obj_setitem loaded_object ''name'' (PStr ''renamed'')"
  have wf: "obj_consistent ?self"
    by (rule obj_consistent_setitem) (simp add: obj_consistent_def loaded_object_def)
  have ch: "changed_fields ?self = {''name''}"
    by (simp add: obj_setitem_def loaded_object_def)
  have u: "obj_getitem ?self ''uuid'' = Inr (PStr ''bd9431c1-8d69-4ad3-803a-8d4a6b89fd36'')"
    by (simp add: obj_getitem_def obj_setitem_def loaded_object_def)
  have payload: "map (\<lambda>f. (f, obj_get_changes ?self f)) device_fields
      = [(''id'', None), (''uuid'', None), (''name'', Some (PStr ''renamed'')),
         (''project_id'', None), (''user_id'', None), (''image_id'', None)]"
    by (simp add: device_fields_def obj_get_changes_def ch) (simp add: obj_setitem_def)
  have sv: "Device_save recording_update [] ?self
      = ([(PStr ''bd9431c1-8d69-4ad3-803a-8d4a6b89fd36'',
           [(''id'', None), (''uuid'', None), (''name'', Some (PStr ''renamed'')),
            (''project_id'', None), (''user_id'', None), (''image_id'', None)])],
         Inr (obj_reset_changes ?self))"
    by (simp add: Device_save_def u recording_update_def payload)
  from Device_save_changes [OF wf sv]
  have "changed_fields (obj_reset_changes ?self) = {}"
    and "dom (obj_get_changes ?self) = changed_fields ?self" by blast+
  with wf sv ch show ?thesis by simp
qed

subsection \<open>Listing and pagination\<close>































end
